theory Spec2Isabelle
  imports Main "HOL-Library.Sublist"
begin

section \<open>ManagedIdentityCredential: environment resolution and delegation\<close>

text \<open>
  The two classes \<^verbatim>\<open>ManagedIdentityCredential\<close> (module \<^verbatim>\<open>_credentials/managed_identity.py\<close>
  and its \<^verbatim>\<open>aio\<close> sibling) read the process environment once, in \<^verbatim>\<open>__init__\<close>, construct
  at most one delegate credential, store it in \<^verbatim>\<open>self._credential\<close>, and forward
  \<^verbatim>\<open>get_token\<close>, \<^verbatim>\<open>__exit__\<close> and \<^verbatim>\<open>close\<close> to it.

  The embedding follows the Python text branch by branch:
  \<^item> \<^verbatim>\<open>os.environ\<close> is a map from names to strings, \<^verbatim>\<open>**kwargs\<close> a map from keyword
    names to Python values;
  \<^item> every \<^verbatim>\<open>raise\<close> (and every implicit exception of an expression of the source:
    \<^verbatim>\<open>os.environ[...]\<close> on a missing key, a keyword passed twice in a call) is an
    \<open>Inl\<close> result;
  \<^item> the delegate classes live in other modules. A delegate object is a value of an
    arbitrary type \<open>'p\<close>; its constructor (\<open>new\<close>), its \<^verbatim>\<open>get_token\<close> and its
    \<^verbatim>\<open>__exit__\<close>/\<^verbatim>\<open>close\<close> are parameters of the functions below. A constructor
    reads the process environment on its own account and may raise; the source calls it
    unguarded, so its exception is the exception of \<^verbatim>\<open>__init__\<close>. A delegate object is
    taken to be truthy, as an instance of a class that defines neither \<^verbatim>\<open>__bool__\<close> nor
    \<^verbatim>\<open>__len__\<close> is;
  \<^item> \<^verbatim>\<open>await\<close> is not modelled: the asynchronous methods are embedded by the value
    they complete with.
\<close>

subsection \<open>Python values, keyword arguments, the environment\<close>

datatype pyval =
    PyNone
  | PyBool bool
  | PyInt int
  | PyStr string
  | PyMapping "(string \<times> string) list"

text \<open>Truth value testing, as \<^verbatim>\<open>if x\<close>, \<^verbatim>\<open>not x\<close> and \<^verbatim>\<open>x or y\<close> perform it.\<close>

fun truthy :: "pyval \<Rightarrow> bool" where
  "truthy PyNone = False"
| "truthy (PyBool b) = b"
| "truthy (PyInt i) = (i \<noteq> 0)"
| "truthy (PyStr s) = (s \<noteq> [])"
| "truthy (PyMapping m) = (m \<noteq> [])"

text \<open>\<^verbatim>\<open>a or b\<close>: the first operand when it is truthy, else the second.\<close>

definition py_or :: "pyval \<Rightarrow> pyval \<Rightarrow> pyval" where
  "py_or a b = (if truthy a then a else b)"

type_synonym kwargs = "string \<rightharpoonup> pyval"

type_synonym environ = "string \<rightharpoonup> string"

text \<open>\<^verbatim>\<open>kwargs.get(key, default)\<close> and \<^verbatim>\<open>kwargs.pop(key, default)\<close>; the latter also
  returns the dictionary without the key.\<close>

definition kwargs_get :: "kwargs \<Rightarrow> string \<Rightarrow> pyval \<Rightarrow> pyval" where
  "kwargs_get kw key dflt = (case kw key of None \<Rightarrow> dflt | Some v \<Rightarrow> v)"

definition pop :: "kwargs \<Rightarrow> string \<Rightarrow> pyval \<Rightarrow> pyval \<times> kwargs" where
  "pop kw key dflt = (case kw key of None \<Rightarrow> (dflt, kw) | Some v \<Rightarrow> (v, kw(key := None)))"

text \<open>\<^verbatim>\<open>os.environ.get(var)\<close>: \<^verbatim>\<open>None\<close> for an unset variable.\<close>

definition environ_get :: "environ \<Rightarrow> string \<Rightarrow> pyval" where
  "environ_get env var = (case env var of None \<Rightarrow> PyNone | Some v \<Rightarrow> PyStr v)"

text \<open>The test \<^verbatim>\<open>if os.environ.get(var)\<close>: the variable is set to a non-empty string.\<close>

definition present :: "environ \<Rightarrow> string \<Rightarrow> bool" where
  "present env var = truthy (environ_get env var)"


subsection \<open>The names of the environment variables\<close>

text \<open>
  Modelled from the spec: the class \<^verbatim>\<open>EnvironmentVariables\<close> of the module \<^verbatim>\<open>_constants\<close>
  is imported by both source files but is not among them. Each attribute is the variable name
  that the specification lists under the environment variables consumed; the authority-host
  variable, which the specification mentions without its name, is \<^verbatim>\<open>AZURE_AUTHORITY_HOST\<close>.
\<close>

definition IDENTITY_ENDPOINT :: string where
  "IDENTITY_ENDPOINT = ''IDENTITY_ENDPOINT''"

definition IDENTITY_HEADER :: string where
  "IDENTITY_HEADER = ''IDENTITY_HEADER''"

definition IDENTITY_SERVER_THUMBPRINT :: string where
  "IDENTITY_SERVER_THUMBPRINT = ''IDENTITY_SERVER_THUMBPRINT''"

definition IMDS_ENDPOINT :: string where
  "IMDS_ENDPOINT = ''IMDS_ENDPOINT''"

definition MSI_ENDPOINT :: string where
  "MSI_ENDPOINT = ''MSI_ENDPOINT''"

definition MSI_SECRET :: string where
  "MSI_SECRET = ''MSI_SECRET''"

definition AZURE_CLIENT_ID :: string where
  "AZURE_CLIENT_ID = ''AZURE_CLIENT_ID''"

definition AZURE_TENANT_ID :: string where
  "AZURE_TENANT_ID = ''AZURE_TENANT_ID''"

definition AZURE_FEDERATED_TOKEN_FILE :: string where
  "AZURE_FEDERATED_TOKEN_FILE = ''AZURE_FEDERATED_TOKEN_FILE''"

definition AZURE_AUTHORITY_HOST :: string where
  "AZURE_AUTHORITY_HOST = ''AZURE_AUTHORITY_HOST''"

text \<open>
  Modelled from the spec: the tuple \<^verbatim>\<open>EnvironmentVariables.WORKLOAD_IDENTITY_VARS\<close>, also of
  \<^verbatim>\<open>_constants\<close>. The specification requires the tenant ID and the federated-token-file path
  (the source reads both with \<^verbatim>\<open>os.environ[...]\<close> once the guard has passed), adds the
  authority-host variable, and lets the client ID come from the \<^verbatim>\<open>client_id\<close> option
  instead of the environment, so \<^verbatim>\<open>AZURE_CLIENT_ID\<close> is not in the tuple.
\<close>

definition WORKLOAD_IDENTITY_VARS :: "string list" where
  "WORKLOAD_IDENTITY_VARS = [AZURE_AUTHORITY_HOST, AZURE_TENANT_ID, AZURE_FEDERATED_TOKEN_FILE]"

subsection \<open>Errors, delegate classes, the object state\<close>

datatype error =
    ValueError string
  | KeyError string
  | TypeError string
  | CredentialUnavailableError string
  | OtherError string string

text \<open>The delegate class that a branch of \<^verbatim>\<open>__init__\<close> instantiates.\<close>

datatype CredentialSourceKind =
    ServiceFabricCredential
  | AppServiceCredential
  | AzureArcCredential
  | AzureMLCredential
  | CloudShellCredential
  | WorkloadIdentityCredential
  | ImdsCredential

text \<open>The object state: the attribute \<^verbatim>\<open>self._credential\<close>, \<^verbatim>\<open>None\<close> or the delegate.\<close>

record 'p ManagedIdentityCredential =
  credential :: "'p option"

definition client_id_message :: string where
  \<open>client_id_message =
     ''Configure the environment with a client ID or pass a value for "client_id" argument''\<close>

text \<open>
  The statement \<^verbatim>\<open>self._credential = Class(...)\<close>. The constructor call is not guarded, so
  an exception it raises leaves \<^verbatim>\<open>__init__\<close>; otherwise the object it returns is stored.
\<close>

definition assign_credential :: "error + 'p \<Rightarrow> error + 'p ManagedIdentityCredential" where
  "assign_credential constructed =
     (case constructed of
        Inl e \<Rightarrow> Inl e
      | Inr c \<Rightarrow> Inr \<lparr>credential = Some c\<rparr>)"

text \<open>
  A call \<^verbatim>\<open>callee(key1=value1, ..., **kwargs)\<close>. Python itself rejects it with
  \<^verbatim>\<open>TypeError\<close>, before the callee is entered, when \<^verbatim>\<open>kwargs\<close> repeats one of the
  keywords written out; otherwise the callee receives the dictionary extended by them. The
  message names the repeated keyword that the dictionary yields first; the model keeps only
  its fixed part.
\<close>

definition multiple_values_message :: string where
  "multiple_values_message = ''got multiple values for keyword argument''"

definition call_with_keywords ::
  "(kwargs \<Rightarrow> error + 'p) \<Rightarrow> (string \<times> pyval) list \<Rightarrow> kwargs \<Rightarrow> error + 'p" where
  "call_with_keywords callee keywords kwargs =
     (if list_all (\<lambda>key. kwargs key = None) (map fst keywords)
      then callee (kwargs ++ map_of keywords)
      else Inl (TypeError multiple_values_message))"

subsection \<open>Construction, synchronous class\<close>

text \<open>
  The first parameter stands for the delegate classes: \<open>new cls env kwargs\<close> is the call
  \<^verbatim>\<open>cls(**kwargs)\<close> made while the process environment is \<open>env\<close>, and is the object
  constructed or the exception raised.
\<close>

definition init_sync ::
  "(CredentialSourceKind \<Rightarrow> environ \<Rightarrow> kwargs \<Rightarrow> error + 'p) \<Rightarrow> environ \<Rightarrow> kwargs \<Rightarrow>
   error + 'p ManagedIdentityCredential" where
  "init_sync new env kwargs0 =
    (let (exclude_workload_identity, kwargs) =
           pop kwargs0 ''_exclude_workload_identity_credential'' (PyBool False)
     in
     if truthy (environ_get env IDENTITY_ENDPOINT) then
       if truthy (environ_get env IDENTITY_HEADER) then
         if truthy (environ_get env IDENTITY_SERVER_THUMBPRINT) then
           assign_credential (new ServiceFabricCredential env kwargs)
         else
           assign_credential (new AppServiceCredential env kwargs)
       else if truthy (environ_get env IMDS_ENDPOINT) then
         assign_credential (new AzureArcCredential env kwargs)
       else
         Inr \<lparr>credential = None\<rparr>
     else if truthy (environ_get env MSI_ENDPOINT) then
       if truthy (environ_get env MSI_SECRET) then
         assign_credential (new AzureMLCredential env kwargs)
       else
         assign_credential (new CloudShellCredential env kwargs)
     else if list_all (\<lambda>var. truthy (environ_get env var)) WORKLOAD_IDENTITY_VARS
             \<and> \<not> truthy exclude_workload_identity then
       (let (popped, kwargs') = pop kwargs ''client_id'' PyNone;
            client_id = py_or popped (environ_get env AZURE_CLIENT_ID)
        in
        if \<not> truthy client_id then Inl (ValueError client_id_message)
        else
          case env AZURE_TENANT_ID of
            None \<Rightarrow> Inl (KeyError AZURE_TENANT_ID)
          | Some tenant \<Rightarrow>
              (case env AZURE_FEDERATED_TOKEN_FILE of
                 None \<Rightarrow> Inl (KeyError AZURE_FEDERATED_TOKEN_FILE)
               | Some file \<Rightarrow>
                   assign_credential
                     (call_with_keywords (new WorkloadIdentityCredential env)
                        [(''tenant_id'', PyStr tenant),
                         (''client_id'', client_id),
                         (''file'', PyStr file)]
                        kwargs')))
     else
       assign_credential (new ImdsCredential env kwargs))"

subsection \<open>Construction, asynchronous class\<close>

definition init_async ::
  "(CredentialSourceKind \<Rightarrow> environ \<Rightarrow> kwargs \<Rightarrow> error + 'p) \<Rightarrow> environ \<Rightarrow> kwargs \<Rightarrow>
   error + 'p ManagedIdentityCredential" where
  "init_async new env kwargs0 =
    (let (exclude_workload_identity, kwargs) =
           pop kwargs0 ''_exclude_workload_identity_credential'' (PyBool False)
     in
     if truthy (environ_get env IDENTITY_ENDPOINT) then
       if truthy (environ_get env IDENTITY_HEADER) then
         if truthy (environ_get env IDENTITY_SERVER_THUMBPRINT) then
           assign_credential (new ServiceFabricCredential env kwargs)
         else
           assign_credential (new AppServiceCredential env kwargs)
       else if truthy (environ_get env IMDS_ENDPOINT) then
         assign_credential (new AzureArcCredential env kwargs)
       else
         assign_credential (new CloudShellCredential env kwargs)
     else if truthy (environ_get env MSI_ENDPOINT) then
       if truthy (environ_get env MSI_SECRET) then
         assign_credential (new AzureMLCredential env kwargs)
       else
         assign_credential (new CloudShellCredential env kwargs)
     else if list_all (\<lambda>var. truthy (environ_get env var)) WORKLOAD_IDENTITY_VARS
             \<and> \<not> truthy exclude_workload_identity then
       (let (popped, kwargs') = pop kwargs ''client_id'' PyNone;
            client_id = py_or popped (environ_get env AZURE_CLIENT_ID)
        in
        if \<not> truthy client_id then Inl (ValueError client_id_message)
        else
          case env AZURE_TENANT_ID of
            None \<Rightarrow> Inl (KeyError AZURE_TENANT_ID)
          | Some tenant \<Rightarrow>
              (case env AZURE_FEDERATED_TOKEN_FILE of
                 None \<Rightarrow> Inl (KeyError AZURE_FEDERATED_TOKEN_FILE)
               | Some file \<Rightarrow>
                   assign_credential
                     (call_with_keywords (new WorkloadIdentityCredential env)
                        [(''tenant_id'', PyStr tenant),
                         (''client_id'', client_id),
                         (''file'', PyStr file)]
                        kwargs')))
     else
       assign_credential (new ImdsCredential env kwargs))"

text \<open>
  A constructor for the examples: it never fails and returns the class and the keyword
  arguments it was called with.
\<close>

definition recording ::
  "CredentialSourceKind \<Rightarrow> environ \<Rightarrow> kwargs \<Rightarrow> error + CredentialSourceKind \<times> kwargs" where
  "recording cls env kwargs = Inr (cls, kwargs)"

subsection \<open>Requesting a token\<close>

text \<open>
  Modelled from the spec: the decorators \<^verbatim>\<open>log_get_token\<close> and \<^verbatim>\<open>log_get_token_async\<close>
  of the module \<^verbatim>\<open>_internal.decorators\<close> wrap \<^verbatim>\<open>get_token\<close> but are not among the source
  files. The specification puts logging out of scope and describes the credential as a transparent
  pass-through that swallows no error, so a decorated function returns and raises what the
  function it wraps does.
\<close>

definition log_get_token :: "string \<Rightarrow> 'f \<Rightarrow> 'f" where
  "log_get_token class_name fn = fn"

definition log_get_token_async :: "'f \<Rightarrow> 'f" where
  "log_get_token_async fn = fn"

text \<open>The message of the synchronous class: four adjacent literals, two of them ending in a
  newline.\<close>

definition unavailable_message_sync :: string where
  "unavailable_message_sync =
     ''No managed identity endpoint found. '' @ [CHR 0x0A] @
     ''The Target Azure platform could not be determined from environment variables. '' @ [CHR 0x0A] @
     ''Visit https://aka.ms/azsdk/python/identity/managedidentitycredential/troubleshoot to '' @
     ''troubleshoot this issue.''"

text \<open>The message of the asynchronous class: the second literal has no newline.\<close>

definition unavailable_message_async :: string where
  "unavailable_message_async =
     ''No managed identity endpoint found. '' @ [CHR 0x0A] @
     ''The Target Azure platform could not be determined from environment variables. '' @
     ''Visit https://aka.ms/azsdk/python/identity/managedidentitycredential/troubleshoot to '' @
     ''troubleshoot this issue.''"

text \<open>
  \<^verbatim>\<open>get_token(self, *scopes, claims=None, tenant_id=None, **kwargs)\<close>. The first parameter
  is the delegate's own \<^verbatim>\<open>get_token\<close>; the method does not assign \<^verbatim>\<open>self._credential\<close>,
  so only its result is returned.
\<close>

definition get_token_sync ::
  "('p \<Rightarrow> string list \<Rightarrow> pyval \<Rightarrow> pyval \<Rightarrow> kwargs \<Rightarrow> error + 't) \<Rightarrow>
   'p ManagedIdentityCredential \<Rightarrow> string list \<Rightarrow> pyval \<Rightarrow> pyval \<Rightarrow> kwargs \<Rightarrow> error + 't" where
  "get_token_sync delegate_get_token =
     log_get_token ''ManagedIdentityCredential''
       (\<lambda>self scopes claims tenant_id kwargs.
          case credential self of
            None \<Rightarrow> Inl (CredentialUnavailableError unavailable_message_sync)
          | Some c \<Rightarrow> delegate_get_token c scopes claims tenant_id kwargs)"

definition get_token_async ::
  "('p \<Rightarrow> string list \<Rightarrow> pyval \<Rightarrow> pyval \<Rightarrow> kwargs \<Rightarrow> error + 't) \<Rightarrow>
   'p ManagedIdentityCredential \<Rightarrow> string list \<Rightarrow> pyval \<Rightarrow> pyval \<Rightarrow> kwargs \<Rightarrow> error + 't" where
  "get_token_async delegate_get_token =
     log_get_token_async
       (\<lambda>self scopes claims tenant_id kwargs.
          case credential self of
            None \<Rightarrow> Inl (CredentialUnavailableError unavailable_message_async)
          | Some c \<Rightarrow> delegate_get_token c scopes claims tenant_id kwargs)"

subsection \<open>Leaving the scope and closing\<close>

text \<open>
  The delegate is mutated in place by its own \<^verbatim>\<open>__exit__\<close> or \<^verbatim>\<open>close\<close>; the model
  returns the object holding the delegate as that call left it, or the exception the call
  raised. \<^verbatim>\<open>__exit__(self, *args)\<close> hands its positional arguments on.
\<close>

definition exit_sync ::
  "('p \<Rightarrow> pyval list \<Rightarrow> error + 'p) \<Rightarrow> 'p ManagedIdentityCredential \<Rightarrow> pyval list \<Rightarrow> error + 'p ManagedIdentityCredential" where
  "exit_sync delegate_exit self args =
     (case credential self of
        None \<Rightarrow> Inr self
      | Some c \<Rightarrow>
          (case delegate_exit c args of
             Inl e \<Rightarrow> Inl e
           | Inr c' \<Rightarrow> Inr (self\<lparr>credential := Some c'\<rparr>)))"

definition close_sync ::
  "('p \<Rightarrow> pyval list \<Rightarrow> error + 'p) \<Rightarrow> 'p ManagedIdentityCredential \<Rightarrow> error + 'p ManagedIdentityCredential" where
  "close_sync delegate_exit self = exit_sync delegate_exit self []"

definition close_async :: "('p \<Rightarrow> error + 'p) \<Rightarrow> 'p ManagedIdentityCredential \<Rightarrow> error + 'p ManagedIdentityCredential" where
  "close_async delegate_close self =
     (case credential self of
        None \<Rightarrow> Inr self
      | Some c \<Rightarrow>
          (case delegate_close c of
             Inl e \<Rightarrow> Inl e
           | Inr c' \<Rightarrow> Inr (self\<lparr>credential := Some c'\<rparr>)))"

text \<open>
  Modelled from the spec: the asynchronous class inherits \<^verbatim>\<open>__aexit__\<close> from the base class
  \<^verbatim>\<open>AsyncContextManager\<close> of the module \<^verbatim>\<open>_internal\<close>, which is not among the source files.
  The specification makes \<^verbatim>\<open>close\<close> equivalent to exiting the scope.
\<close>

definition aexit_async ::
  "('p \<Rightarrow> error + 'p) \<Rightarrow> 'p ManagedIdentityCredential \<Rightarrow> pyval list \<Rightarrow> error + 'p ManagedIdentityCredential" where
  "aexit_async delegate_close self args = close_async delegate_close self"

subsection \<open>Basic facts about the environment and the keyword arguments\<close>

lemma pop_eq: "pop kw key dflt = (kwargs_get kw key dflt, kw(key := None))"
  by (auto simp: pop_def kwargs_get_def split: option.splits)


lemmas variable_names =
  IDENTITY_ENDPOINT_def IDENTITY_HEADER_def IDENTITY_SERVER_THUMBPRINT_def IMDS_ENDPOINT_def
  MSI_ENDPOINT_def MSI_SECRET_def AZURE_CLIENT_ID_def AZURE_TENANT_ID_def
  AZURE_FEDERATED_TOKEN_FILE_def AZURE_AUTHORITY_HOST_def

lemma get_token_sync_eq:
  "get_token_sync D self scopes claims tenant_id kwargs =
     (case credential self of
        None \<Rightarrow> Inl (CredentialUnavailableError unavailable_message_sync)
      | Some c \<Rightarrow> D c scopes claims tenant_id kwargs)"
  by (simp add: get_token_sync_def log_get_token_def)

lemma get_token_async_eq:
  "get_token_async D self scopes claims tenant_id kwargs =
     (case credential self of
        None \<Rightarrow> Inl (CredentialUnavailableError unavailable_message_async)
      | Some c \<Rightarrow> D c scopes claims tenant_id kwargs)"
  by (simp add: get_token_async_def log_get_token_async_def)

lemma present_empty: "\<not> present Map.empty var"
  by (simp add: present_def environ_get_def)

lemma present_Some: "present env var \<Longrightarrow> \<exists>v. env var = Some v \<and> v \<noteq> []"
  by (auto simp: present_def environ_get_def split: option.splits)

lemma assign_credential_Inr: "assign_credential (Inr c) = Inr \<lparr>credential = Some c\<rparr>"
  by (simp add: assign_credential_def)

lemma assign_credential_Inl: "assign_credential (Inl e) = Inl e"
  by (simp add: assign_credential_def)

lemma assign_credential_held:
  "assign_credential constructed = Inr self \<Longrightarrow> \<exists>c. constructed = Inr c \<and> credential self = Some c"
  by (auto simp: assign_credential_def split: sum.splits)

subsection \<open>The identity-endpoint branch\<close>

text \<open>
  C3. Whenever \<^verbatim>\<open>IDENTITY_ENDPOINT\<close> and \<^verbatim>\<open>IDENTITY_HEADER\<close> are both set to non-empty
  strings, both classes construct a \<^verbatim>\<open>ServiceFabricCredential\<close> if
  \<^verbatim>\<open>IDENTITY_SERVER_THUMBPRINT\<close> is set to a non-empty string as well, and an
  \<^verbatim>\<open>AppServiceCredential\<close> if it is not, whatever else the environment and the keyword
  arguments hold: \<^verbatim>\<open>__init__\<close> is the call of that class on the keyword arguments without
  the internal exclusion flag, followed by the assignment to \<^verbatim>\<open>self._credential\<close>.
\<close>

theorem identity_header_resolution:
  assumes "present env IDENTITY_ENDPOINT" and "present env IDENTITY_HEADER"
  shows "(present env IDENTITY_SERVER_THUMBPRINT \<longrightarrow>
            init_sync new env kw = assign_credential (new ServiceFabricCredential env
               (kw(''_exclude_workload_identity_credential'' := None))) \<and>
            init_async new env kw = assign_credential (new ServiceFabricCredential env
               (kw(''_exclude_workload_identity_credential'' := None)))) \<and>
         (\<not> present env IDENTITY_SERVER_THUMBPRINT \<longrightarrow>
            init_sync new env kw = assign_credential (new AppServiceCredential env
               (kw(''_exclude_workload_identity_credential'' := None))) \<and>
            init_async new env kw = assign_credential (new AppServiceCredential env
               (kw(''_exclude_workload_identity_credential'' := None))))"
  using assms by (simp add: init_sync_def init_async_def pop_eq present_def)

text \<open>The App Service scenario, and a Service Fabric environment that also sets
  \<^verbatim>\<open>MSI_ENDPOINT\<close>.\<close>

theorem identity_header_resolution_witness:
  "init_sync recording [IDENTITY_ENDPOINT \<mapsto> ''http://x'', IDENTITY_HEADER \<mapsto> ''secret''] Map.empty
     = Inr \<lparr>credential = Some (AppServiceCredential, Map.empty)\<rparr> \<and>
   init_async recording [IDENTITY_ENDPOINT \<mapsto> ''http://x'', IDENTITY_HEADER \<mapsto> ''secret''] Map.empty
     = Inr \<lparr>credential = Some (AppServiceCredential, Map.empty)\<rparr> \<and>
   init_sync recording [IDENTITY_ENDPOINT \<mapsto> ''http://x'', IDENTITY_HEADER \<mapsto> ''secret'',
                   IDENTITY_SERVER_THUMBPRINT \<mapsto> ''ab12'', MSI_ENDPOINT \<mapsto> ''http://y''] Map.empty
     = Inr \<lparr>credential = Some (ServiceFabricCredential, Map.empty)\<rparr>"
proof -
  let ?e1 = "[IDENTITY_ENDPOINT \<mapsto> ''http://x'', IDENTITY_HEADER \<mapsto> ''secret'']"
  let ?e2 = "[IDENTITY_ENDPOINT \<mapsto> ''http://x'', IDENTITY_HEADER \<mapsto> ''secret'',
              IDENTITY_SERVER_THUMBPRINT \<mapsto> ''ab12'', MSI_ENDPOINT \<mapsto> ''http://y'']"
  have a: "present ?e1 IDENTITY_ENDPOINT" "present ?e1 IDENTITY_HEADER"
          "\<not> present ?e1 IDENTITY_SERVER_THUMBPRINT"
    by (simp_all add: present_def environ_get_def variable_names)
  have b: "present ?e2 IDENTITY_ENDPOINT" "present ?e2 IDENTITY_HEADER"
          "present ?e2 IDENTITY_SERVER_THUMBPRINT"
    by (simp_all add: present_def environ_get_def variable_names)
  from identity_header_resolution [OF a(1,2), of recording Map.empty]
       identity_header_resolution [OF b(1,2), of recording Map.empty] a(3) b(3)
  show ?thesis by (simp add: recording_def assign_credential_Inr)
qed

subsection \<open>The MSI-endpoint branch\<close>

text \<open>
  C5. Whenever \<^verbatim>\<open>IDENTITY_ENDPOINT\<close> is unset or empty and \<^verbatim>\<open>MSI_ENDPOINT\<close> is set to a
  non-empty string, both classes construct an \<^verbatim>\<open>AzureMLCredential\<close> if \<^verbatim>\<open>MSI_SECRET\<close>
  is set to a non-empty string and a \<^verbatim>\<open>CloudShellCredential\<close> if it is not.
\<close>

theorem msi_endpoint_resolution:
  assumes "\<not> present env IDENTITY_ENDPOINT" and "present env MSI_ENDPOINT"
  shows "(present env MSI_SECRET \<longrightarrow>
            init_sync new env kw = assign_credential (new AzureMLCredential env
               (kw(''_exclude_workload_identity_credential'' := None))) \<and>
            init_async new env kw = assign_credential (new AzureMLCredential env
               (kw(''_exclude_workload_identity_credential'' := None)))) \<and>
         (\<not> present env MSI_SECRET \<longrightarrow>
            init_sync new env kw = assign_credential (new CloudShellCredential env
               (kw(''_exclude_workload_identity_credential'' := None))) \<and>
            init_async new env kw = assign_credential (new CloudShellCredential env
               (kw(''_exclude_workload_identity_credential'' := None))))"
  using assms by (simp add: init_sync_def init_async_def pop_eq present_def)

theorem msi_endpoint_resolution_witness:
  "init_sync recording [MSI_ENDPOINT \<mapsto> ''http://m'', MSI_SECRET \<mapsto> ''s''] Map.empty
     = Inr \<lparr>credential = Some (AzureMLCredential, Map.empty)\<rparr> \<and>
   init_async recording [MSI_ENDPOINT \<mapsto> ''http://m'', MSI_SECRET \<mapsto> ''s''] Map.empty
     = Inr \<lparr>credential = Some (AzureMLCredential, Map.empty)\<rparr> \<and>
   init_sync recording [MSI_ENDPOINT \<mapsto> ''http://m''] Map.empty
     = Inr \<lparr>credential = Some (CloudShellCredential, Map.empty)\<rparr> \<and>
   init_async recording [MSI_ENDPOINT \<mapsto> ''http://m''] Map.empty
     = Inr \<lparr>credential = Some (CloudShellCredential, Map.empty)\<rparr>"
proof -
  let ?e1 = "[MSI_ENDPOINT \<mapsto> ''http://m'', MSI_SECRET \<mapsto> ''s'']"
  let ?e2 = "[MSI_ENDPOINT \<mapsto> ''http://m'']"
  have a: "\<not> present ?e1 IDENTITY_ENDPOINT" "present ?e1 MSI_ENDPOINT" "present ?e1 MSI_SECRET"
    by (simp_all add: present_def environ_get_def variable_names)
  have b: "\<not> present ?e2 IDENTITY_ENDPOINT" "present ?e2 MSI_ENDPOINT" "\<not> present ?e2 MSI_SECRET"
    by (simp_all add: present_def environ_get_def variable_names)
  from msi_endpoint_resolution [OF a(1,2), of recording Map.empty]
       msi_endpoint_resolution [OF b(1,2), of recording Map.empty] a(3) b(3)
  show ?thesis by (simp add: recording_def assign_credential_Inr)
qed

subsection \<open>The workload-identity branch\<close>

text \<open>
  C4. When the workload-identity branch is selected (no identity endpoint, no MSI endpoint,
  every variable of \<^verbatim>\<open>WORKLOAD_IDENTITY_VARS\<close> set to a non-empty string, exclusion flag
  falsy) and neither the \<^verbatim>\<open>client_id\<close> option nor \<^verbatim>\<open>AZURE_CLIENT_ID\<close> yields a truthy
  client ID, \<^verbatim>\<open>__init__\<close> of both classes raises \<^verbatim>\<open>ValueError\<close>: no object is constructed,
  so there is nothing a later \<^verbatim>\<open>get_token\<close> could be called on, and the exception is not
  \<^verbatim>\<open>CredentialUnavailableError\<close>.
\<close>

theorem workload_identity_missing_client_id:
  assumes "\<not> present env IDENTITY_ENDPOINT" and "\<not> present env MSI_ENDPOINT"
    and "list_all (present env) WORKLOAD_IDENTITY_VARS"
    and "\<not> truthy (kwargs_get kw ''_exclude_workload_identity_credential'' (PyBool False))"
    and "\<not> truthy (kwargs_get kw ''client_id'' PyNone)"
    and "\<not> present env AZURE_CLIENT_ID"
  shows "init_sync new env kw = Inl (ValueError client_id_message) \<and>
         init_async new env kw = Inl (ValueError client_id_message) \<and>
         (\<forall>f. init_sync new env kw \<noteq> Inr f) \<and> (\<forall>f. init_async new env kw \<noteq> Inr f)"
proof -
  have "kwargs_get (kw(''_exclude_workload_identity_credential'' := None)) ''client_id'' PyNone
          = kwargs_get kw ''client_id'' PyNone"
    by (simp add: kwargs_get_def)
  with assms show ?thesis
    by (simp add: init_sync_def init_async_def pop_eq present_def[abs_def] py_or_def)
qed

text \<open>The three variables set, \<^verbatim>\<open>AZURE_CLIENT_ID\<close> unset, and an empty \<^verbatim>\<open>client_id\<close>
  option.\<close>

theorem workload_identity_missing_client_id_witness:
  "init_sync recording [AZURE_AUTHORITY_HOST \<mapsto> ''https://login.microsoftonline.com'',
                   AZURE_TENANT_ID \<mapsto> ''tenant'',
                   AZURE_FEDERATED_TOKEN_FILE \<mapsto> ''/var/run/token'']
             [''client_id'' \<mapsto> PyStr []] = Inl (ValueError client_id_message) \<and>
   init_async recording [AZURE_AUTHORITY_HOST \<mapsto> ''https://login.microsoftonline.com'',
                   AZURE_TENANT_ID \<mapsto> ''tenant'',
                   AZURE_FEDERATED_TOKEN_FILE \<mapsto> ''/var/run/token'']
             [''client_id'' \<mapsto> PyStr []] = Inl (ValueError client_id_message)"
proof -
  let ?e = "[AZURE_AUTHORITY_HOST \<mapsto> ''https://login.microsoftonline.com'',
             AZURE_TENANT_ID \<mapsto> ''tenant'',
             AZURE_FEDERATED_TOKEN_FILE \<mapsto> ''/var/run/token'']"
  let ?k = "[''client_id'' \<mapsto> PyStr []]"
  have h: "\<not> present ?e IDENTITY_ENDPOINT" "\<not> present ?e MSI_ENDPOINT"
       "list_all (present ?e) WORKLOAD_IDENTITY_VARS"
       "\<not> truthy (kwargs_get ?k ''_exclude_workload_identity_credential'' (PyBool False))"
       "\<not> truthy (kwargs_get ?k ''client_id'' PyNone)"
       "\<not> present ?e AZURE_CLIENT_ID"
    by (simp_all add: present_def environ_get_def kwargs_get_def WORKLOAD_IDENTITY_VARS_def
          variable_names)
  from workload_identity_missing_client_id [OF h, of recording] show ?thesis by simp
qed

text \<open>
  C6. Let no earlier branch match (no identity endpoint, no MSI endpoint) and let all four
  workload-identity variables be present: those of \<^verbatim>\<open>WORKLOAD_IDENTITY_VARS\<close> and a client
  ID (the theorem also accepts a client ID that comes from the \<^verbatim>\<open>client_id\<close> option
  instead of \<^verbatim>\<open>AZURE_CLIENT_ID\<close>). With a falsy exclusion flag both classes resolve to
  \<^verbatim>\<open>WorkloadIdentityCredential\<close>: \<^verbatim>\<open>__init__\<close> is the call of that class with the tenant
  ID, the client ID and the token file written out as keywords next to the remaining
  options, followed by the assignment to \<^verbatim>\<open>self._credential\<close>. With a truthy flag the
  same environment falls through to the next branch of the chain, which is the last one,
  and both classes resolve to \<^verbatim>\<open>ImdsCredential\<close>.
\<close>

theorem workload_identity_resolution:
  assumes "\<not> present env IDENTITY_ENDPOINT" and "\<not> present env MSI_ENDPOINT"
    and "list_all (present env) WORKLOAD_IDENTITY_VARS"
    and "truthy (kwargs_get kw ''client_id'' PyNone) \<or> present env AZURE_CLIENT_ID"
  shows "(\<not> truthy (kwargs_get kw ''_exclude_workload_identity_credential'' (PyBool False)) \<longrightarrow>
           (\<exists>tenant file.
              env AZURE_TENANT_ID = Some tenant \<and> env AZURE_FEDERATED_TOKEN_FILE = Some file \<and>
              init_sync new env kw =
                assign_credential
                  (call_with_keywords (new WorkloadIdentityCredential env)
                     [(''tenant_id'', PyStr tenant),
                      (''client_id'', py_or (kwargs_get kw ''client_id'' PyNone)
                                            (environ_get env AZURE_CLIENT_ID)),
                      (''file'', PyStr file)]
                     (kw(''_exclude_workload_identity_credential'' := None,
                         ''client_id'' := None))) \<and>
              init_async new env kw =
                assign_credential
                  (call_with_keywords (new WorkloadIdentityCredential env)
                     [(''tenant_id'', PyStr tenant),
                      (''client_id'', py_or (kwargs_get kw ''client_id'' PyNone)
                                            (environ_get env AZURE_CLIENT_ID)),
                      (''file'', PyStr file)]
                     (kw(''_exclude_workload_identity_credential'' := None,
                         ''client_id'' := None))))) \<and>
         (truthy (kwargs_get kw ''_exclude_workload_identity_credential'' (PyBool False)) \<longrightarrow>
            init_sync new env kw = assign_credential (new ImdsCredential env
              (kw(''_exclude_workload_identity_credential'' := None))) \<and>
            init_async new env kw = assign_credential (new ImdsCredential env
              (kw(''_exclude_workload_identity_credential'' := None))))"
proof -
  let ?kw = "kw(''_exclude_workload_identity_credential'' := None)"
  from assms(3) obtain t fl
    where tf: "env AZURE_TENANT_ID = Some t" "env AZURE_FEDERATED_TOKEN_FILE = Some fl"
    by (auto simp: WORKLOAD_IDENTITY_VARS_def dest!: present_Some)
  have g: "kwargs_get ?kw ''client_id'' PyNone = kwargs_get kw ''client_id'' PyNone"
    by (simp add: kwargs_get_def)
  have c: "truthy (py_or (kwargs_get kw ''client_id'' PyNone) (environ_get env AZURE_CLIENT_ID))"
    using assms(4) by (auto simp: py_or_def present_def)
  show ?thesis
    using assms(1,2,3) tf c
    by (simp add: init_sync_def init_async_def pop_eq present_def[abs_def] g)
qed

text \<open>
  The four variables set: without options, and with the exclusion flag. Then two
  constructions that select the class and do not return: a constructor that refuses the
  authority \<^verbatim>\<open>http://insecure\<close>, and a \<^verbatim>\<open>tenant_id\<close> option, which collides with the
  keyword written out.
\<close>

theorem workload_identity_resolution_witness:
  "init_sync recording [AZURE_AUTHORITY_HOST \<mapsto> ''https://login.microsoftonline.com'',
                   AZURE_TENANT_ID \<mapsto> ''tenant'', AZURE_CLIENT_ID \<mapsto> ''client'',
                   AZURE_FEDERATED_TOKEN_FILE \<mapsto> ''/var/run/token''] Map.empty
     = Inr \<lparr>credential = Some (WorkloadIdentityCredential,
          map_of [(''tenant_id'', PyStr ''tenant''), (''client_id'', PyStr ''client''),
                  (''file'', PyStr ''/var/run/token'')])\<rparr> \<and>
   init_async recording [AZURE_AUTHORITY_HOST \<mapsto> ''https://login.microsoftonline.com'',
                   AZURE_TENANT_ID \<mapsto> ''tenant'', AZURE_CLIENT_ID \<mapsto> ''client'',
                   AZURE_FEDERATED_TOKEN_FILE \<mapsto> ''/var/run/token'']
                  [''_exclude_workload_identity_credential'' \<mapsto> PyBool True]
     = Inr \<lparr>credential = Some (ImdsCredential, Map.empty)\<rparr> \<and>
   init_sync (\<lambda>cls env kwargs. if env AZURE_AUTHORITY_HOST = Some ''http://insecure''
                                then Inl (ValueError ''authority must use https'')
                                else Inr (cls, kwargs))
             [AZURE_AUTHORITY_HOST \<mapsto> ''http://insecure'',
              AZURE_TENANT_ID \<mapsto> ''tenant'', AZURE_CLIENT_ID \<mapsto> ''client'',
              AZURE_FEDERATED_TOKEN_FILE \<mapsto> ''/var/run/token''] Map.empty
     = Inl (ValueError ''authority must use https'') \<and>
   init_sync recording [AZURE_AUTHORITY_HOST \<mapsto> ''https://login.microsoftonline.com'',
                   AZURE_TENANT_ID \<mapsto> ''tenant'', AZURE_CLIENT_ID \<mapsto> ''client'',
                   AZURE_FEDERATED_TOKEN_FILE \<mapsto> ''/var/run/token'']
                  [''tenant_id'' \<mapsto> PyStr ''other'']
     = Inl (TypeError multiple_values_message)"
proof -
  let ?e = "[AZURE_AUTHORITY_HOST \<mapsto> ''https://login.microsoftonline.com'',
             AZURE_TENANT_ID \<mapsto> ''tenant'', AZURE_CLIENT_ID \<mapsto> ''client'',
             AZURE_FEDERATED_TOKEN_FILE \<mapsto> ''/var/run/token'']"
  let ?i = "[AZURE_AUTHORITY_HOST \<mapsto> ''http://insecure'',
             AZURE_TENANT_ID \<mapsto> ''tenant'', AZURE_CLIENT_ID \<mapsto> ''client'',
             AZURE_FEDERATED_TOKEN_FILE \<mapsto> ''/var/run/token'']"
  let ?strict = "\<lambda>(cls :: CredentialSourceKind) (env :: environ) (kwargs :: kwargs).
                   if env AZURE_AUTHORITY_HOST = Some ''http://insecure''
                   then Inl (ValueError ''authority must use https'')
                   else (Inr (cls, kwargs) :: error + CredentialSourceKind \<times> kwargs)"
  let ?x = "[''_exclude_workload_identity_credential'' \<mapsto> PyBool True]"
  let ?t = "[''tenant_id'' \<mapsto> PyStr ''other'']"
  have e: "\<not> present ?e IDENTITY_ENDPOINT" "\<not> present ?e MSI_ENDPOINT"
       "list_all (present ?e) WORKLOAD_IDENTITY_VARS"
    by (simp_all add: present_def environ_get_def WORKLOAD_IDENTITY_VARS_def variable_names)
  have i: "\<not> present ?i IDENTITY_ENDPOINT" "\<not> present ?i MSI_ENDPOINT"
       "list_all (present ?i) WORKLOAD_IDENTITY_VARS"
    by (simp_all add: present_def environ_get_def WORKLOAD_IDENTITY_VARS_def variable_names)
  have ce: "truthy (kwargs_get k ''client_id'' PyNone) \<or> present ?e AZURE_CLIENT_ID" for k
    by (simp add: present_def environ_get_def variable_names)
  have ci: "truthy (kwargs_get k ''client_id'' PyNone) \<or> present ?i AZURE_CLIENT_ID" for k
    by (simp add: present_def environ_get_def variable_names)
  have ve: "?e AZURE_TENANT_ID = Some ''tenant''"
       "?e AZURE_FEDERATED_TOKEN_FILE = Some ''/var/run/token''"
       "environ_get ?e AZURE_CLIENT_ID = PyStr ''client''"
    by (simp_all add: environ_get_def variable_names)
  have vi: "?i AZURE_TENANT_ID = Some ''tenant''"
       "?i AZURE_FEDERATED_TOKEN_FILE = Some ''/var/run/token''"
       "environ_get ?i AZURE_CLIENT_ID = PyStr ''client''"
       "?i AZURE_AUTHORITY_HOST = Some ''http://insecure''"
    by (simp_all add: environ_get_def variable_names)
  have k: "\<not> truthy (kwargs_get Map.empty ''_exclude_workload_identity_credential'' (PyBool False))"
       "truthy (kwargs_get ?x ''_exclude_workload_identity_credential'' (PyBool False))"
       "\<not> truthy (kwargs_get ?t ''_exclude_workload_identity_credential'' (PyBool False))"
       "kwargs_get Map.empty ''client_id'' PyNone = PyNone"
       "kwargs_get ?t ''client_id'' PyNone = PyNone"
    by (simp_all add: kwargs_get_def)
  from workload_identity_resolution [OF e ce, of Map.empty recording] ve k
  have 1: "init_sync recording ?e Map.empty
     = Inr \<lparr>credential = Some (WorkloadIdentityCredential,
          map_of [(''tenant_id'', PyStr ''tenant''), (''client_id'', PyStr ''client''),
                  (''file'', PyStr ''/var/run/token'')])\<rparr>"
    by (simp add: py_or_def call_with_keywords_def recording_def assign_credential_Inr)
  from workload_identity_resolution [OF e ce, of ?x recording] k
  have 2: "init_async recording ?e ?x = Inr \<lparr>credential = Some (ImdsCredential, Map.empty)\<rparr>"
    by (simp add: recording_def assign_credential_Inr)
  from workload_identity_resolution [OF i ci, of Map.empty ?strict] vi k
  have 3: "init_sync ?strict ?i Map.empty = Inl (ValueError ''authority must use https'')"
    by (simp add: py_or_def call_with_keywords_def assign_credential_Inl)
  from workload_identity_resolution [OF e ce, of ?t recording] ve k
  have 4: "init_sync recording ?e ?t = Inl (TypeError multiple_values_message)"
    by (simp add: py_or_def call_with_keywords_def assign_credential_Inl)
  from 1 2 3 4 show ?thesis by blast
qed

subsection \<open>The fallback\<close>

text \<open>
  C7. In the empty environment both classes resolve to \<^verbatim>\<open>ImdsCredential\<close>:
  \<^verbatim>\<open>__init__\<close> is the call of that class followed by the assignment, so the object
  holds the delegate that the call returns. More generally the \<^verbatim>\<open>ImdsCredential\<close> is
  what both classes construct whenever no earlier branch matches: no identity endpoint, no
  MSI endpoint, and the workload-identity guard false.
\<close>

theorem imds_fallback:
  "init_sync new Map.empty kw = assign_credential (new ImdsCredential Map.empty
      (kw(''_exclude_workload_identity_credential'' := None))) \<and>
   init_async new Map.empty kw = assign_credential (new ImdsCredential Map.empty
      (kw(''_exclude_workload_identity_credential'' := None))) \<and>
   (\<forall>c. new ImdsCredential Map.empty (kw(''_exclude_workload_identity_credential'' := None))
           = Inr c \<longrightarrow>
      init_sync new Map.empty kw = Inr \<lparr>credential = Some c\<rparr> \<and>
      init_async new Map.empty kw = Inr \<lparr>credential = Some c\<rparr>) \<and>
   (\<not> present env IDENTITY_ENDPOINT \<and> \<not> present env MSI_ENDPOINT \<and>
    \<not> (list_all (present env) WORKLOAD_IDENTITY_VARS \<and>
       \<not> truthy (kwargs_get kw ''_exclude_workload_identity_credential'' (PyBool False))) \<longrightarrow>
      init_sync new env kw = assign_credential (new ImdsCredential env
        (kw(''_exclude_workload_identity_credential'' := None))) \<and>
      init_async new env kw = assign_credential (new ImdsCredential env
        (kw(''_exclude_workload_identity_credential'' := None))))"
proof -
  have general: "init_sync new e kw = assign_credential (new ImdsCredential e
        (kw(''_exclude_workload_identity_credential'' := None))) \<and>
      init_async new e kw = assign_credential (new ImdsCredential e
        (kw(''_exclude_workload_identity_credential'' := None)))"
    if "\<not> present e IDENTITY_ENDPOINT" "\<not> present e MSI_ENDPOINT"
       "\<not> (list_all (present e) WORKLOAD_IDENTITY_VARS \<and>
          \<not> truthy (kwargs_get kw ''_exclude_workload_identity_credential'' (PyBool False)))"
    for e
    using that
    by (auto simp: init_sync_def init_async_def pop_eq present_def[abs_def])
  have "\<not> list_all (present Map.empty) WORKLOAD_IDENTITY_VARS"
    by (simp add: WORKLOAD_IDENTITY_VARS_def present_empty)
  with general [of Map.empty] general [of env] show ?thesis
    by (auto simp: present_empty assign_credential_Inr)
qed

text \<open>An environment that is not empty and matches no branch, and the empty environment.\<close>

theorem imds_fallback_witness:
  "init_sync recording [MSI_SECRET \<mapsto> ''s'', AZURE_TENANT_ID \<mapsto> ''t''] Map.empty =
     Inr \<lparr>credential = Some (ImdsCredential, Map.empty)\<rparr> \<and>
   init_async recording [MSI_SECRET \<mapsto> ''s'', AZURE_TENANT_ID \<mapsto> ''t''] Map.empty =
     Inr \<lparr>credential = Some (ImdsCredential, Map.empty)\<rparr> \<and>
   init_sync recording Map.empty Map.empty =
     Inr \<lparr>credential = Some (ImdsCredential, Map.empty)\<rparr> \<and>
   init_async recording Map.empty Map.empty =
     Inr \<lparr>credential = Some (ImdsCredential, Map.empty)\<rparr>"
proof -
  let ?e = "[MSI_SECRET \<mapsto> ''s'', AZURE_TENANT_ID \<mapsto> ''t'']"
  have "\<not> present ?e IDENTITY_ENDPOINT" "\<not> present ?e MSI_ENDPOINT"
       "\<not> list_all (present ?e) WORKLOAD_IDENTITY_VARS"
    by (simp_all add: present_def environ_get_def WORKLOAD_IDENTITY_VARS_def variable_names)
  with imds_fallback [of recording Map.empty ?e] show ?thesis
    by (simp add: recording_def assign_credential_Inr)
qed

subsection \<open>Empty strings count as absent\<close>



subsection \<open>Where the two classes differ\<close>

text \<open>
  C10. Every path through \<^verbatim>\<open>__init__\<close> of the asynchronous class that returns has assigned
  a delegate, so on any object it constructs \<^verbatim>\<open>get_token\<close> goes straight to the delegate
  and the branch raising \<^verbatim>\<open>CredentialUnavailableError\<close> is never taken. The synchronous
  class, in contrast, constructs an object without a delegate whenever \<^verbatim>\<open>IDENTITY_ENDPOINT\<close>
  is set to a non-empty string while \<^verbatim>\<open>IDENTITY_HEADER\<close> and \<^verbatim>\<open>IMDS_ENDPOINT\<close> are not,
  and such an environment exists.
\<close>

theorem async_always_holds_a_delegate:
  "(\<forall>self. init_async new env kw = Inr self \<longrightarrow>
      (\<exists>c. credential self = Some c \<and>
           get_token_async D self scopes claims tenant_id kwargs =
             D c scopes claims tenant_id kwargs)) \<and>
   (present env IDENTITY_ENDPOINT \<and> \<not> present env IDENTITY_HEADER \<and>
    \<not> present env IMDS_ENDPOINT \<longrightarrow>
      init_sync new env kw = Inr \<lparr>credential = None\<rparr>) \<and>
   (\<exists>e. present e IDENTITY_ENDPOINT \<and> \<not> present e IDENTITY_HEADER \<and>
        \<not> present e IMDS_ENDPOINT \<and>
        init_sync new e kw = Inr \<lparr>credential = None\<rparr>)"
proof -
  have held: "\<exists>c. credential self = Some c" if "init_async new env kw = Inr self" for self
    using that
    by (auto simp: init_async_def pop_eq Let_def split: if_splits option.splits
          dest!: assign_credential_held)
  have a: "\<exists>c. credential self = Some c \<and>
           get_token_async D self scopes claims tenant_id kwargs =
             D c scopes claims tenant_id kwargs" if "init_async new env kw = Inr self" for self
    using held [OF that] by (auto simp: get_token_async_eq)
  have s: "init_sync new e kw = Inr \<lparr>credential = None\<rparr>"
    if "present e IDENTITY_ENDPOINT" "\<not> present e IDENTITY_HEADER" "\<not> present e IMDS_ENDPOINT"
    for e
    using that by (simp add: init_sync_def pop_eq present_def)
  let ?e = "[IDENTITY_ENDPOINT \<mapsto> ''http://x'']"
  have p: "present ?e IDENTITY_ENDPOINT" "\<not> present ?e IDENTITY_HEADER" "\<not> present ?e IMDS_ENDPOINT"
    by (simp_all add: present_def environ_get_def variable_names)
  with s [of ?e] have "\<exists>e. present e IDENTITY_ENDPOINT \<and> \<not> present e IDENTITY_HEADER \<and>
        \<not> present e IMDS_ENDPOINT \<and> init_sync new e kw = Inr \<lparr>credential = None\<rparr>"
    by blast
  with a s [of env] show ?thesis by blast
qed

text \<open>The environment that sets \<^verbatim>\<open>IDENTITY_ENDPOINT\<close> alone.\<close>

theorem async_always_holds_a_delegate_witness:
  "init_async recording [IDENTITY_ENDPOINT \<mapsto> ''http://x''] Map.empty =
     Inr \<lparr>credential = Some (CloudShellCredential, Map.empty)\<rparr> \<and>
   (\<exists>c. credential \<lparr>credential = Some (CloudShellCredential, Map.empty :: kwargs)\<rparr> = Some c \<and>
        get_token_async (\<lambda>c scopes claims tenant_id kwargs. Inr (fst c, scopes))
          \<lparr>credential = Some (CloudShellCredential, Map.empty :: kwargs)\<rparr> [''scope''] PyNone PyNone Map.empty =
        (Inr (fst c, [''scope'']) :: error + CredentialSourceKind \<times> string list)) \<and>
   init_sync recording [IDENTITY_ENDPOINT \<mapsto> ''http://x''] Map.empty =
     Inr \<lparr>credential = None\<rparr>"
proof -
  let ?e = "[IDENTITY_ENDPOINT \<mapsto> ''http://x'']"
  let ?D = "\<lambda>(c :: CredentialSourceKind \<times> kwargs) (scopes :: string list) (claims :: pyval)
              (tenant_id :: pyval) (kwargs :: kwargs).
              (Inr (fst c, scopes) :: error + CredentialSourceKind \<times> string list)"
  have i: "init_async recording ?e Map.empty = Inr \<lparr>credential = Some (CloudShellCredential, Map.empty)\<rparr>"
    by (simp add: init_async_def pop_eq kwargs_get_def environ_get_def variable_names
          recording_def assign_credential_Inr)
  have p: "present ?e IDENTITY_ENDPOINT" "\<not> present ?e IDENTITY_HEADER" "\<not> present ?e IMDS_ENDPOINT"
    by (simp_all add: present_def environ_get_def variable_names)
  from async_always_holds_a_delegate [of recording ?e Map.empty ?D "[''scope'']" PyNone PyNone Map.empty]
       i p
  show ?thesis by simp
qed

text \<open>
  C1. The two classes are meant to resolve every environment to the same delegate class, or
  both to none. They do not: with \<^verbatim>\<open>IDENTITY_ENDPOINT\<close> alone the synchronous class holds no
  delegate and the asynchronous class holds a \<^verbatim>\<open>CloudShellCredential\<close>.
\<close>

theorem sync_async_resolution_differs:
  "init_sync recording [IDENTITY_ENDPOINT \<mapsto> ''http://x''] Map.empty =
     Inr \<lparr>credential = None\<rparr> \<and>
   init_async recording [IDENTITY_ENDPOINT \<mapsto> ''http://x''] Map.empty =
     Inr \<lparr>credential = Some (CloudShellCredential, Map.empty)\<rparr> \<and>
   init_sync recording [IDENTITY_ENDPOINT \<mapsto> ''http://x''] Map.empty \<noteq>
   init_async recording [IDENTITY_ENDPOINT \<mapsto> ''http://x''] Map.empty"
  by (simp add: init_sync_def init_async_def pop_eq kwargs_get_def environ_get_def variable_names
        recording_def assign_credential_Inr)

subsection \<open>Requesting a token\<close>

lemma sublist_between: "ys = ps @ xs @ ss \<Longrightarrow> sublist xs ys"
  by (auto simp: sublist_def)

lemma message_sync_names_platform:
  "sublist ''The Target Azure platform could not be determined from environment variables''
     unavailable_message_sync"
  by (rule sublist_between [where ps = "''No managed identity endpoint found. '' @ [CHR 0x0A]"
        and ss = "''. '' @ [CHR 0x0A] @
          ''Visit https://aka.ms/azsdk/python/identity/managedidentitycredential/troubleshoot to '' @
          ''troubleshoot this issue.''"])
     (simp add: unavailable_message_sync_def)

lemma message_sync_points_to_guidance:
  "sublist ''https://aka.ms/azsdk/python/identity/managedidentitycredential/troubleshoot''
     unavailable_message_sync"
  by (rule sublist_between [where ps = "''No managed identity endpoint found. '' @ [CHR 0x0A] @
          ''The Target Azure platform could not be determined from environment variables. '' @
          [CHR 0x0A] @ ''Visit ''"
        and ss = "'' to troubleshoot this issue.''"])
     (simp add: unavailable_message_sync_def)

lemma message_async_names_platform:
  "sublist ''The Target Azure platform could not be determined from environment variables''
     unavailable_message_async"
  by (rule sublist_between [where ps = "''No managed identity endpoint found. '' @ [CHR 0x0A]"
        and ss = "''. '' @
          ''Visit https://aka.ms/azsdk/python/identity/managedidentitycredential/troubleshoot to '' @
          ''troubleshoot this issue.''"])
     (simp add: unavailable_message_async_def)

lemma message_async_points_to_guidance:
  "sublist ''https://aka.ms/azsdk/python/identity/managedidentitycredential/troubleshoot''
     unavailable_message_async"
  by (rule sublist_between [where ps = "''No managed identity endpoint found. '' @ [CHR 0x0A] @
          ''The Target Azure platform could not be determined from environment variables. '' @
          ''Visit ''"
        and ss = "'' to troubleshoot this issue.''"])
     (simp add: unavailable_message_async_def)

text \<open>
  C2. For all scopes, \<^verbatim>\<open>claims\<close>, \<^verbatim>\<open>tenant_id\<close> and further keyword arguments:
  without a delegate \<^verbatim>\<open>get_token\<close> raises \<^verbatim>\<open>CredentialUnavailableError\<close> with the
  class's diagnostic message; with a delegate it is the delegate's \<^verbatim>\<open>get_token\<close> on
  exactly these arguments, result and failure alike. Hence the diagnostic error comes out
  exactly when no delegate is held or the delegate itself fails with that very error, and,
  for a delegate that never does, exactly when no delegate is held. Both messages say that
  the platform could not be determined from environment variables and contain the address
  of the troubleshooting guide.
\<close>

theorem get_token_forwarding:
  "(credential self = None \<longrightarrow>
      get_token_sync D self scopes claims tenant_id kwargs =
        Inl (CredentialUnavailableError unavailable_message_sync) \<and>
      get_token_async D self scopes claims tenant_id kwargs =
        Inl (CredentialUnavailableError unavailable_message_async)) \<and>
   (\<forall>c. credential self = Some c \<longrightarrow>
      get_token_sync D self scopes claims tenant_id kwargs = D c scopes claims tenant_id kwargs \<and>
      get_token_async D self scopes claims tenant_id kwargs = D c scopes claims tenant_id kwargs) \<and>
   (get_token_sync D self scopes claims tenant_id kwargs =
        Inl (CredentialUnavailableError unavailable_message_sync)
      \<longleftrightarrow> credential self = None \<or>
          (\<exists>c. credential self = Some c \<and>
               D c scopes claims tenant_id kwargs =
                 Inl (CredentialUnavailableError unavailable_message_sync))) \<and>
   (get_token_async D self scopes claims tenant_id kwargs =
        Inl (CredentialUnavailableError unavailable_message_async)
      \<longleftrightarrow> credential self = None \<or>
          (\<exists>c. credential self = Some c \<and>
               D c scopes claims tenant_id kwargs =
                 Inl (CredentialUnavailableError unavailable_message_async))) \<and>
   ((\<forall>c. D c scopes claims tenant_id kwargs \<noteq>
           Inl (CredentialUnavailableError unavailable_message_sync)) \<longrightarrow>
      (get_token_sync D self scopes claims tenant_id kwargs =
         Inl (CredentialUnavailableError unavailable_message_sync)
       \<longleftrightarrow> credential self = None)) \<and>
   ((\<forall>c. D c scopes claims tenant_id kwargs \<noteq>
           Inl (CredentialUnavailableError unavailable_message_async)) \<longrightarrow>
      (get_token_async D self scopes claims tenant_id kwargs =
         Inl (CredentialUnavailableError unavailable_message_async)
       \<longleftrightarrow> credential self = None)) \<and>
   sublist ''The Target Azure platform could not be determined from environment variables''
     unavailable_message_sync \<and>
   sublist ''https://aka.ms/azsdk/python/identity/managedidentitycredential/troubleshoot''
     unavailable_message_sync \<and>
   sublist ''The Target Azure platform could not be determined from environment variables''
     unavailable_message_async \<and>
   sublist ''https://aka.ms/azsdk/python/identity/managedidentitycredential/troubleshoot''
     unavailable_message_async"
  using message_sync_names_platform message_sync_points_to_guidance
        message_async_names_platform message_async_points_to_guidance
  by (auto simp: get_token_sync_eq get_token_async_eq split: option.splits)

text \<open>The App Service scenario against a delegate that echoes its arguments, a delegate that
  fails, and an object without a delegate.\<close>

theorem get_token_forwarding_witness:
  "get_token_sync (\<lambda>c scopes claims tenant_id kwargs. Inr (fst c, scopes, claims, tenant_id))
     \<lparr>credential = Some (AppServiceCredential, Map.empty :: kwargs)\<rparr>
     [''https://management.azure.com/.default''] PyNone PyNone Map.empty
     = (Inr (AppServiceCredential, [''https://management.azure.com/.default''], PyNone, PyNone)
        :: error + CredentialSourceKind \<times> string list \<times> pyval \<times> pyval) \<and>
   get_token_async (\<lambda>c scopes claims tenant_id kwargs. Inl (OtherError ''HttpResponseError'' ''503''))
     \<lparr>credential = Some (AppServiceCredential, Map.empty :: kwargs)\<rparr>
     [''https://management.azure.com/.default''] PyNone PyNone Map.empty
     = (Inl (OtherError ''HttpResponseError'' ''503'') :: error + unit) \<and>
   get_token_sync (\<lambda>c scopes claims tenant_id kwargs. Inr (fst c, scopes, claims, tenant_id))
     \<lparr>credential = (None :: (CredentialSourceKind \<times> kwargs) option)\<rparr>
     [''https://management.azure.com/.default''] PyNone PyNone Map.empty
     = (Inl (CredentialUnavailableError unavailable_message_sync)
        :: error + CredentialSourceKind \<times> string list \<times> pyval \<times> pyval)"
proof -
  let ?echo = "\<lambda>(c :: CredentialSourceKind \<times> kwargs) (scopes :: string list) (claims :: pyval)
                 (tenant_id :: pyval) (kwargs :: kwargs).
                 (Inr (fst c, scopes, claims, tenant_id)
                  :: error + CredentialSourceKind \<times> string list \<times> pyval \<times> pyval)"
  let ?fail = "\<lambda>(c :: CredentialSourceKind \<times> kwargs) (scopes :: string list) (claims :: pyval)
                 (tenant_id :: pyval) (kwargs :: kwargs).
                 (Inl (OtherError ''HttpResponseError'' ''503'') :: error + unit)"
  let ?held = "\<lparr>credential = Some (AppServiceCredential, Map.empty :: kwargs)\<rparr>"
  let ?none = "\<lparr>credential = (None :: (CredentialSourceKind \<times> kwargs) option)\<rparr>"
  let ?s = "[''https://management.azure.com/.default'']"
  from get_token_forwarding [of ?held ?echo ?s PyNone PyNone Map.empty]
       get_token_forwarding [of ?held ?fail ?s PyNone PyNone Map.empty]
       get_token_forwarding [of ?none ?echo ?s PyNone PyNone Map.empty]
  show ?thesis by simp
qed

subsection \<open>Closing\<close>

text \<open>
  C9. Let the delegate's own \<^verbatim>\<open>__exit__\<close> and \<^verbatim>\<open>close\<close> never raise and be idempotent.
  Then \<^verbatim>\<open>close\<close> and the scope exit of both classes return normally from every state, a
  second call in a row returns normally too and changes nothing, and on an object without a
  delegate either is a no-op (this last part needs no assumption on the delegate).
\<close>

theorem close_never_raises:
  assumes "\<forall>c args. \<exists>c'. delegate_exit c args = Inr c'"
    and "\<forall>c args c' args'. delegate_exit c args = Inr c' \<longrightarrow> delegate_exit c' args' = Inr c'"
    and "\<forall>c. \<exists>c'. delegate_close c = Inr c'"
    and "\<forall>c c'. delegate_close c = Inr c' \<longrightarrow> delegate_close c' = Inr c'"
  shows "(credential self = None \<longrightarrow>
            close_sync delegate_exit self = Inr self \<and>
            exit_sync delegate_exit self args = Inr self \<and>
            close_async delegate_close self = Inr self \<and>
            aexit_async delegate_close self args = Inr self) \<and>
         (\<exists>self'. close_sync delegate_exit self = Inr self' \<and>
                  close_sync delegate_exit self' = Inr self') \<and>
         (\<exists>self'. exit_sync delegate_exit self args = Inr self' \<and>
                  exit_sync delegate_exit self' args' = Inr self') \<and>
         (\<exists>self'. close_async delegate_close self = Inr self' \<and>
                  close_async delegate_close self' = Inr self') \<and>
         (\<exists>self'. aexit_async delegate_close self args = Inr self' \<and>
                  aexit_async delegate_close self' args' = Inr self')"
proof -
  have ex: "\<exists>self'. exit_sync delegate_exit self a = Inr self' \<and>
                    exit_sync delegate_exit self' b = Inr self'" for a b
  proof (cases "credential self")
    case None
    then show ?thesis by (simp add: exit_sync_def)
  next
    case (Some c)
    from assms(1) obtain c' where c': "delegate_exit c a = Inr c'" by blast
    with assms(2) have "delegate_exit c' b = Inr c'" by blast
    with Some c' show ?thesis by (simp add: exit_sync_def)
  qed
  have cl: "\<exists>self'. close_async delegate_close self = Inr self' \<and>
                    close_async delegate_close self' = Inr self'"
  proof (cases "credential self")
    case None
    then show ?thesis by (simp add: close_async_def)
  next
    case (Some c)
    from assms(3) obtain c' where c': "delegate_close c = Inr c'" by blast
    with assms(4) have "delegate_close c' = Inr c'" by blast
    with Some c' show ?thesis by (simp add: close_async_def)
  qed
  have none: "credential self = None \<longrightarrow>
            close_sync delegate_exit self = Inr self \<and>
            exit_sync delegate_exit self args = Inr self \<and>
            close_async delegate_close self = Inr self \<and>
            aexit_async delegate_close self args = Inr self"
    by (simp add: close_sync_def exit_sync_def close_async_def aexit_async_def)
  from none ex [of "[]" "[]"] ex [of args args'] cl show ?thesis
    by (simp add: close_sync_def aexit_async_def)
qed

text \<open>A delegate whose state counts its open sessions and whose \<^verbatim>\<open>close\<close> resets it.\<close>

theorem close_never_raises_witness:
  "(\<exists>self'. close_sync (\<lambda>c args. Inr 0) \<lparr>credential = Some (1 :: nat)\<rparr> = (Inr self' :: error + nat ManagedIdentityCredential) \<and>
            close_sync (\<lambda>c args. Inr 0) self' = (Inr self' :: error + nat ManagedIdentityCredential)) \<and>
   (\<exists>self'. close_async (\<lambda>c. Inr 0) \<lparr>credential = Some (1 :: nat)\<rparr> = (Inr self' :: error + nat ManagedIdentityCredential) \<and>
            close_async (\<lambda>c. Inr 0) self' = (Inr self' :: error + nat ManagedIdentityCredential)) \<and>
   close_sync (\<lambda>c args. Inr 0) \<lparr>credential = None\<rparr> = (Inr \<lparr>credential = None\<rparr> :: error + nat ManagedIdentityCredential) \<and>
   close_async (\<lambda>c. Inr 0) \<lparr>credential = None\<rparr> = (Inr \<lparr>credential = None\<rparr> :: error + nat ManagedIdentityCredential)"
proof -
  let ?ex = "\<lambda>(c :: nat) (args :: pyval list). (Inr 0 :: error + nat)"
  let ?cl = "\<lambda>(c :: nat). (Inr 0 :: error + nat)"
  have h: "\<forall>c args. \<exists>c'. ?ex c args = Inr c'"
          "\<forall>c args c' args'. ?ex c args = Inr c' \<longrightarrow> ?ex c' args' = Inr c'"
          "\<forall>c. \<exists>c'. ?cl c = Inr c'"
          "\<forall>c c'. ?cl c = Inr c' \<longrightarrow> ?cl c' = Inr c'"
    by auto
  from close_never_raises [OF h, of "\<lparr>credential = Some 1\<rparr>" "[]" "[]"]
       close_never_raises [OF h, of "\<lparr>credential = None\<rparr>" "[]" "[]"]
  show ?thesis by simp
qed

end
